theory Spec2Isabelle
  imports Complex_Main "HOL-Library.Monad_Syntax"
begin

section \<open>JavaScript values\<close>

text \<open>
  The functions under verification take \<^verbatim>\<open>unknown\<close> input, so the model has one type of
  untyped JavaScript values. Strings are lists of 8-bit characters (code units below 256),
  \<^verbatim>\<open>length\<close> counts code units as \<^verbatim>\<open>String.prototype.length\<close> does. Numbers are the
  finite ones, taken as exact rationals; \<^verbatim>\<open>NaN\<close> and the infinities are outside the model.
  An object is the list of its own properties in insertion order; a property that is not
  there reads as \<^verbatim>\<open>undefined\<close>.
\<close>

datatype jsval =
    JUndefined
  | JNull
  | JBool bool
  | JNum rat
  | JBigInt int
  | JStr string
  | JArr "jsval list"
  | JObj "(string \<times> jsval) list"

datatype exn = SecurityError | QuotaExceededError | SyntaxError | TypeError | ZodError

definition own_property :: "(string \<times> jsval) list \<Rightarrow> string \<Rightarrow> jsval" where
  "own_property kvs k = (case map_of kvs k of None \<Rightarrow> JUndefined | Some v \<Rightarrow> v)"

text \<open>Member access \<^verbatim>\<open>v.k\<close>: a TypeError on \<^verbatim>\<open>null\<close> and \<^verbatim>\<open>undefined\<close>.\<close>

definition get_member :: "jsval \<Rightarrow> string \<Rightarrow> exn + jsval" where
  "get_member v k =
     (case v of
        JUndefined \<Rightarrow> Inl TypeError
      | JNull \<Rightarrow> Inl TypeError
      | JObj kvs \<Rightarrow> Inr (own_property kvs k)
      | _ \<Rightarrow> Inr JUndefined)"

section \<open>JSON.stringify and JSON.parse\<close>

text \<open>
  A string held by the store is taken up to what \<^verbatim>\<open>JSON.parse\<close> makes of it: the empty
  string (the only falsy string), a non-empty string that is not a JSON text, or a JSON
  text, identified with the value it denotes. \<^verbatim>\<open>JSON.stringify\<close> of a value yields the
  JSON text of that value after the standard clean-up: properties whose value is
  \<^verbatim>\<open>undefined\<close> are dropped, \<^verbatim>\<open>undefined\<close> array elements become \<^verbatim>\<open>null\<close>, a BigInt
  anywhere raises a TypeError, and \<^verbatim>\<open>undefined\<close> at the top yields \<^verbatim>\<open>undefined\<close>
  instead of a string.
\<close>

datatype stored = EmptyString | NotJson | JsonText jsval

fun has_bigint :: "jsval \<Rightarrow> bool" where
  "has_bigint (JBigInt n) = True"
| "has_bigint (JArr vs) = list_ex has_bigint vs"
| "has_bigint (JObj kvs) = list_ex (\<lambda>kv. has_bigint (snd kv)) kvs"
| "has_bigint v = False"

fun to_json :: "jsval \<Rightarrow> jsval" where
  "to_json (JArr vs) = JArr (map (\<lambda>v. if v = JUndefined then JNull else to_json v) vs)"
| "to_json (JObj kvs) =
     JObj (map (\<lambda>kv. (fst kv, to_json (snd kv))) (filter (\<lambda>kv. snd kv \<noteq> JUndefined) kvs))"
| "to_json v = v"

text \<open>The result \<open>None\<close> stands for \<^verbatim>\<open>undefined\<close>.\<close>

definition JSON_stringify :: "jsval \<Rightarrow> exn + stored option" where
  "JSON_stringify v =
     (if has_bigint v then Inl TypeError
      else if v = JUndefined then Inr None
      else Inr (Some (JsonText (to_json v))))"

definition JSON_parse :: "stored \<Rightarrow> exn + jsval" where
  "JSON_parse t =
     (case t of
        EmptyString \<Rightarrow> Inl SyntaxError
      | NotJson \<Rightarrow> Inl SyntaxError
      | JsonText v \<Rightarrow> Inr v)"

text \<open>
  The two string coercions the code relies on: \<^verbatim>\<open>setItem(key, undefined)\<close> stores the
  string \<^verbatim>\<open>"undefined"\<close>, which is not JSON, and \<^verbatim>\<open>JSON.parse(null)\<close> parses the string
  \<^verbatim>\<open>"null"\<close>.
\<close>

definition string_of_undefined_or :: "stored option \<Rightarrow> stored" where
  "string_of_undefined_or x = (case x of None \<Rightarrow> NotJson | Some t \<Rightarrow> t)"

definition string_of_null_or :: "stored option \<Rightarrow> stored" where
  "string_of_null_or x = (case x of None \<Rightarrow> JsonText JNull | Some t \<Rightarrow> t)"

section \<open>The browser's localStorage\<close>

text \<open>
  The store is either disabled (every access to \<^verbatim>\<open>localStorage\<close> raises a SecurityError,
  and it has no contents) or enabled with its contents and the platform's limit, a
  predicate on the contents it is willing to hold: \<^verbatim>\<open>setItem\<close> raises a
  QuotaExceededError when the new contents would not fit. A computation takes the store
  and returns a value or an exception together with the store it leaves behind. What is
  written to the console is diagnostic only and is not part of the model; the argument of
  a console call is evaluated where its evaluation can raise.
\<close>

datatype storage = Disabled | Enabled "string \<Rightarrow> stored option" "(string \<Rightarrow> stored option) \<Rightarrow> bool"

type_synonym 'a io = "storage \<Rightarrow> (exn + 'a) \<times> storage"

fun contents :: "storage \<Rightarrow> string \<Rightarrow> stored option" where
  "contents Disabled = Map.empty"
| "contents (Enabled m fits) = m"

fun getItem :: "string \<Rightarrow> stored option io" where
  "getItem key Disabled = (Inl SecurityError, Disabled)"
| "getItem key (Enabled m fits) = (Inr (m key), Enabled m fits)"

fun setItem :: "string \<Rightarrow> stored \<Rightarrow> unit io" where
  "setItem key v Disabled = (Inl SecurityError, Disabled)"
| "setItem key v (Enabled m fits) =
     (if fits (m(key \<mapsto> v)) then (Inr (), Enabled (m(key \<mapsto> v)) fits)
      else (Inl QuotaExceededError, Enabled m fits))"

fun removeItem :: "string \<Rightarrow> unit io" where
  "removeItem key Disabled = (Inl SecurityError, Disabled)"
| "removeItem key (Enabled m fits) = (Inr (), Enabled (m(key := None)) fits)"

definition io_return :: "'a \<Rightarrow> 'a io" where
  "io_return x st = (Inr x, st)"

definition io_lift :: "exn + 'a \<Rightarrow> 'a io" where
  "io_lift r st = (r, st)"

definition io_bind :: "'a io \<Rightarrow> ('a \<Rightarrow> 'b io) \<Rightarrow> 'b io" where
  "io_bind m f st = (case m st of (Inl e, st') \<Rightarrow> (Inl e, st') | (Inr x, st') \<Rightarrow> f x st')"

definition try_catch :: "'a io \<Rightarrow> (exn \<Rightarrow> 'a io) \<Rightarrow> 'a io" where
  "try_catch m h st = (case m st of (Inl e, st') \<Rightarrow> h e st' | (Inr x, st') \<Rightarrow> (Inr x, st'))"

fun forEach :: "('a \<Rightarrow> unit io) \<Rightarrow> 'a list \<Rightarrow> unit io" where
  "forEach f [] = io_return ()"
| "forEach f (x # xs) = io_bind (f x) (\<lambda>_. forEach f xs)"

section \<open>The zod schema constructors used by the application\<close>

text \<open>
  A schema maps an untyped value to the validated value, or to \<open>None\<close> when validation
  fails (\<^verbatim>\<open>safeParse\<close>); \<^verbatim>\<open>parse\<close> raises a ZodError instead. An object schema reads the
  properties it names and drops every other property of the input.
\<close>

type_synonym 'a schema = "jsval \<Rightarrow> 'a option"

definition z_parse :: "'a schema \<Rightarrow> jsval \<Rightarrow> exn + 'a" where
  "z_parse s v = (case s v of None \<Rightarrow> Inl ZodError | Some x \<Rightarrow> Inr x)"

definition z_string :: "string schema" where
  "z_string v = (case v of JStr s \<Rightarrow> Some s | _ \<Rightarrow> None)"

definition z_number :: "rat schema" where
  "z_number v = (case v of JNum r \<Rightarrow> Some r | _ \<Rightarrow> None)"

definition z_boolean :: "bool schema" where
  "z_boolean v = (case v of JBool b \<Rightarrow> Some b | _ \<Rightarrow> None)"

definition refine :: "('a \<Rightarrow> bool) \<Rightarrow> 'a schema \<Rightarrow> 'a schema" where
  "refine p s v = (case s v of None \<Rightarrow> None | Some x \<Rightarrow> if p x then Some x else None)"

definition z_optional :: "'a schema \<Rightarrow> 'a option schema" where
  "z_optional s v = (if v = JUndefined then Some None else map_option Some (s v))"

definition z_nullable :: "'a schema \<Rightarrow> 'a option schema" where
  "z_nullable s v = (if v = JNull then Some None else map_option Some (s v))"

definition is_integer :: "rat \<Rightarrow> bool" where
  "is_integer r = (of_int \<lfloor>r\<rfloor> = r)"

definition is_hex :: "char \<Rightarrow> bool" where
  "is_hex c =
     (let n = (of_char c :: nat)
      in (48 \<le> n \<and> n \<le> 57) \<or> (65 \<le> n \<and> n \<le> 70) \<or> (97 \<le> n \<and> n \<le> 102))"

text \<open>
  The check of \<^verbatim>\<open>z.string().uuid()\<close>, as the layout it tests: hexadecimal groups of 8,
  4, 4, 4 and 12 digits joined by hyphens.
\<close>

definition is_uuid :: "string \<Rightarrow> bool" where
  "is_uuid s =
     (length s = 36 \<and>
      list_all (\<lambda>i. if i \<in> set [8, 13, 18, 23] then s ! i = CHR ''-'' else is_hex (s ! i))
        [0 ..< 36])"

definition z_uuid :: "string schema \<Rightarrow> string schema" where
  "z_uuid = refine is_uuid"

definition z_min_length :: "nat \<Rightarrow> string schema \<Rightarrow> string schema" where
  "z_min_length n = refine (\<lambda>s. n \<le> length s)"

definition z_max_length :: "nat \<Rightarrow> string schema \<Rightarrow> string schema" where
  "z_max_length n = refine (\<lambda>s. length s \<le> n)"

definition z_int :: "rat schema \<Rightarrow> rat schema" where
  "z_int = refine is_integer"

definition z_min :: "rat \<Rightarrow> rat schema \<Rightarrow> rat schema" where
  "z_min n = refine (\<lambda>r. n \<le> r)"

definition z_positive :: "rat schema \<Rightarrow> rat schema" where
  "z_positive = refine (\<lambda>r. 0 < r)"

section \<open>Types and schemas of the application\<close>

record UserStats =
  totalSessions :: rat
  totalCalls :: rat
  successfulSequences :: rat
  failedSequences :: rat

record UserPreferences =
  autoPlayAnimations :: "bool option"
  showFlowHints :: "bool option"

text \<open>The field \<^verbatim>\<open>id\<close> is named \<open>profile_id\<close>, since \<open>id\<close> is the identity function.\<close>

record UserProfile =
  profile_id :: string
  name :: string
  createdAt :: rat
  stats :: UserStats
  preferences :: "UserPreferences option"

text \<open>
  \<^verbatim>\<open>BackupData\<close> is declared with a \<^verbatim>\<open>UserProfile | null\<close> user; \<^verbatim>\<open>exportBackup\<close> puts
  the unvalidated result of \<^verbatim>\<open>JSON.parse\<close> there, so the record is generic in the user.
\<close>

record 'u BackupData =
  version :: string
  timestamp :: rat
  user :: 'u

definition UserStatsSchema :: "UserStats schema" where
  "UserStatsSchema v =
     (case v of
        JObj kvs \<Rightarrow> do {
          a \<leftarrow> z_min 0 (z_int z_number) (own_property kvs ''totalSessions'');
          b \<leftarrow> z_min 0 (z_int z_number) (own_property kvs ''totalCalls'');
          c \<leftarrow> z_min 0 (z_int z_number) (own_property kvs ''successfulSequences'');
          d \<leftarrow> z_min 0 (z_int z_number) (own_property kvs ''failedSequences'');
          Some \<lparr>totalSessions = a, totalCalls = b, successfulSequences = c,
                failedSequences = d\<rparr>
        }
      | _ \<Rightarrow> None)"

definition UserPreferencesSchema :: "UserPreferences schema" where
  "UserPreferencesSchema v =
     (case v of
        JObj kvs \<Rightarrow> do {
          a \<leftarrow> z_optional z_boolean (own_property kvs ''autoPlayAnimations'');
          b \<leftarrow> z_optional z_boolean (own_property kvs ''showFlowHints'');
          Some \<lparr>autoPlayAnimations = a, showFlowHints = b\<rparr>
        }
      | _ \<Rightarrow> None)"

definition UserProfileSchema :: "UserProfile schema" where
  "UserProfileSchema v =
     (case v of
        JObj kvs \<Rightarrow> do {
          i \<leftarrow> z_uuid z_string (own_property kvs ''id'');
          n \<leftarrow> z_max_length 20 (z_min_length 1 z_string) (own_property kvs ''name'');
          c \<leftarrow> z_positive (z_int z_number) (own_property kvs ''createdAt'');
          s \<leftarrow> UserStatsSchema (own_property kvs ''stats'');
          p \<leftarrow> z_optional UserPreferencesSchema (own_property kvs ''preferences'');
          Some \<lparr>profile_id = i, name = n, createdAt = c, stats = s, preferences = p\<rparr>
        }
      | _ \<Rightarrow> None)"

definition BackupDataSchema :: "UserProfile option BackupData schema" where
  "BackupDataSchema v =
     (case v of
        JObj kvs \<Rightarrow> do {
          ver \<leftarrow> z_string (own_property kvs ''version'');
          t \<leftarrow> z_number (own_property kvs ''timestamp'');
          u \<leftarrow> z_nullable UserProfileSchema (own_property kvs ''user'');
          Some \<lparr>version = ver, timestamp = t, user = u\<rparr>
        }
      | _ \<Rightarrow> None)"

text \<open>
  A typed value is a JavaScript object again when it is handed to \<^verbatim>\<open>JSON.stringify\<close> or
  to a schema: the object with the record's fields, an optional field that is \<open>None\<close> left
  out.
\<close>

definition optional_field :: "string \<Rightarrow> jsval option \<Rightarrow> (string \<times> jsval) list" where
  "optional_field k x = (case x of None \<Rightarrow> [] | Some v \<Rightarrow> [(k, v)])"

definition js_of_UserStats :: "UserStats \<Rightarrow> jsval" where
  "js_of_UserStats s =
     JObj [(''totalSessions'', JNum (totalSessions s)),
           (''totalCalls'', JNum (totalCalls s)),
           (''successfulSequences'', JNum (successfulSequences s)),
           (''failedSequences'', JNum (failedSequences s))]"

definition js_of_UserPreferences :: "UserPreferences \<Rightarrow> jsval" where
  "js_of_UserPreferences p =
     JObj (optional_field ''autoPlayAnimations'' (map_option JBool (autoPlayAnimations p)) @
           optional_field ''showFlowHints'' (map_option JBool (showFlowHints p)))"

definition js_of_UserProfile :: "UserProfile \<Rightarrow> jsval" where
  "js_of_UserProfile u =
     JObj ([(''id'', JStr (profile_id u)),
            (''name'', JStr (name u)),
            (''createdAt'', JNum (createdAt u)),
            (''stats'', js_of_UserStats (stats u))] @
           optional_field ''preferences'' (map_option js_of_UserPreferences (preferences u)))"

section \<open>utils/local-storage.ts\<close>

definition STORAGE_KEYS :: "string list" where
  "STORAGE_KEYS = [''squaredance-user-profile'']"

definition saveToLocalStorage :: "string \<Rightarrow> jsval \<Rightarrow> unit io" where
  "saveToLocalStorage key data =
     try_catch
       (io_bind (io_lift (JSON_stringify data)) (\<lambda>json.
          setItem key (string_of_undefined_or json)))
       (\<lambda>error. io_return ())"

definition loadFromLocalStorage :: "string \<Rightarrow> 'a schema \<Rightarrow> 'a option io" where
  "loadFromLocalStorage key schema =
     try_catch
       (io_bind (getItem key) (\<lambda>json.
          case json of
            None \<Rightarrow> io_return None
          | Some t \<Rightarrow>
              if t = EmptyString then io_return None
              else io_bind (io_lift (JSON_parse t)) (\<lambda>data.
                case schema data of
                  None \<Rightarrow> io_return None
                | Some x \<Rightarrow> io_return (Some x))))
       (\<lambda>error. io_return None)"

definition clearAllLocalStorage :: "unit io" where
  "clearAllLocalStorage =
     try_catch (forEach (\<lambda>key. removeItem key) STORAGE_KEYS) (\<lambda>error. io_return ())"

section \<open>utils/backup.ts\<close>

text \<open>\<^verbatim>\<open>Date.now()\<close> is the argument \<open>now\<close>, in milliseconds.\<close>

definition exportBackup :: "int \<Rightarrow> jsval BackupData io" where
  "exportBackup now =
     io_bind (getItem ''squaredance-user-profile'') (\<lambda>userJson.
     io_bind (case userJson of
                None \<Rightarrow> io_return JNull
              | Some t \<Rightarrow> if t = EmptyString then io_return JNull
                          else io_lift (JSON_parse t)) (\<lambda>u.
     io_return \<lparr>version = ''1.0.0'', timestamp = of_int now, user = u\<rparr>))"

definition validateBackup :: "jsval \<Rightarrow> UserProfile option BackupData option" where
  "validateBackup data =
     (case z_parse BackupDataSchema data of
        Inl error \<Rightarrow> None
      | Inr backup \<Rightarrow> Some backup)"

definition importBackup :: "jsval \<Rightarrow> bool io" where
  "importBackup data =
     (case validateBackup data of
        None \<Rightarrow> io_return False
      | Some backup \<Rightarrow>
          try_catch
            (io_bind
               (case user backup of
                  Some u \<Rightarrow>
                    io_bind (io_lift (z_parse UserProfileSchema (js_of_UserProfile u)))
                      (\<lambda>validUser.
                    io_bind (io_lift (JSON_stringify (js_of_UserProfile validUser))) (\<lambda>json.
                    io_bind (setItem ''squaredance-user-profile'' (string_of_undefined_or json))
                      (\<lambda>_.
                    io_bind (getItem ''squaredance-user-profile'') (\<lambda>saved.
                    io_bind (io_lift (JSON_parse (string_of_null_or saved))) (\<lambda>parsed.
                    io_bind (io_lift (get_member parsed ''name'')) (\<lambda>_.
                    io_return ()))))))
                | None \<Rightarrow> removeItem ''squaredance-user-profile'')
               (\<lambda>_. io_return True))
            (\<lambda>error. io_return False))"

section \<open>components/ProfileModal.tsx and components/WelcomeScreen.tsx\<close>

text \<open>
  The character class \<^verbatim>\<open>\s\<close> and \<^verbatim>\<open>trim\<close> agree on what white space is; below 256 these
  are tab, line feed, vertical tab, form feed, carriage return, space and the no-break
  space.
\<close>

definition is_space :: "char \<Rightarrow> bool" where
  "is_space c = ((of_char c :: nat) \<in> set [9, 10, 11, 12, 13, 32, 160])"

definition is_name_char :: "char \<Rightarrow> bool" where
  "is_name_char c =
     (let n = (of_char c :: nat)
      in (97 \<le> n \<and> n \<le> 122) \<or> (65 \<le> n \<and> n \<le> 90) \<or> (48 \<le> n \<and> n \<le> 57) \<or>
         is_space c \<or> c = CHR ''_'' \<or> c = CHR ''-'')"

definition validCharPattern :: "string \<Rightarrow> bool" where
  "validCharPattern s = (s \<noteq> [] \<and> list_all is_name_char s)"

definition trim :: "string \<Rightarrow> string" where
  "trim s = rev (dropWhile is_space (rev (dropWhile is_space s)))"

definition validateName :: "string \<Rightarrow> string option" where
  "validateName v =
     (if v = [] then Some ''Name is required''
      else if length v > 20 then Some ''Name must be 20 characters or less''
      else if \<not> validCharPattern v
        then Some ''Only letters, numbers, spaces, dash (-), and underscore (_) allowed''
      else if v \<noteq> trim v then Some ''Name cannot start or end with spaces''
      else None)"

section \<open>What the schemas check, on typed values\<close>

text \<open>
  The refinements of \<^verbatim>\<open>UserStatsSchema\<close> and \<^verbatim>\<open>UserProfileSchema\<close> read off the schema
  declarations, as predicates on the typed records. That they are what the schemas decide
  is proved below (\<open>UserProfileSchema_js_of\<close>).
\<close>

definition valid_count :: "rat \<Rightarrow> bool" where
  "valid_count r = (is_integer r \<and> 0 \<le> r)"

definition valid_UserStats :: "UserStats \<Rightarrow> bool" where
  "valid_UserStats s =
     (valid_count (totalSessions s) \<and> valid_count (totalCalls s) \<and>
      valid_count (successfulSequences s) \<and> valid_count (failedSequences s))"

definition valid_UserProfile :: "UserProfile \<Rightarrow> bool" where
  "valid_UserProfile u =
     (is_uuid (profile_id u) \<and> 1 \<le> length (name u) \<and> length (name u) \<le> 20 \<and>
      is_integer (createdAt u) \<and> 0 < createdAt u \<and> valid_UserStats (stats u))"

definition js_of_flag :: "bool option \<Rightarrow> jsval" where
  "js_of_flag x = (case x of None \<Rightarrow> JUndefined | Some b \<Rightarrow> JBool b)"

section \<open>Fixtures of utils/backup.test.ts\<close>

text \<open>
  The profile and the envelope the tests build; \<^verbatim>\<open>Date.now()\<close> is the argument. The
  concrete instances below use 1700000000000 for it.
\<close>

definition mockUser :: "rat \<Rightarrow> UserProfile" where
  "mockUser now =
     \<lparr>profile_id = ''123e4567-e89b-12d3-a456-426614174000'',
      name = ''TestUser'',
      createdAt = now,
      stats = \<lparr>totalSessions = 5, totalCalls = 100, successfulSequences = 80,
               failedSequences = 20\<rparr>,
      preferences = Some \<lparr>autoPlayAnimations = Some True, showFlowHints = Some False\<rparr>\<rparr>"

text \<open>
  Stores for the instances: no items; a platform that accepts every write; one whose quota
  is used up, so that no write fits.
\<close>

definition no_items :: "string \<Rightarrow> stored option" where
  [simp]: "no_items k = None"

definition unlimited :: "(string \<Rightarrow> stored option) \<Rightarrow> bool" where
  [simp]: "unlimited m = True"

definition exhausted :: "(string \<Rightarrow> stored option) \<Rightarrow> bool" where
  [simp]: "exhausted m = False"

definition backup_of :: "jsval \<Rightarrow> jsval" where
  "backup_of u =
     JObj [(''version'', JStr ''1.0.0''), (''timestamp'', JNum 1700000000001), (''user'', u)]"

section \<open>Facts about the schema constructors\<close>

lemmas io_defs = io_return_def io_lift_def io_bind_def try_catch_def

lemmas z_checks =
  z_uuid_def z_min_length_def z_max_length_def z_int_def z_min_def z_positive_def

lemma refine_Some: "refine p s v = Some x \<longleftrightarrow> s v = Some x \<and> p x"
  by (auto simp: refine_def split: option.splits)

lemma z_number_Some: "z_number v = Some r \<longleftrightarrow> v = JNum r"
  by (cases v) (auto simp: z_number_def)

lemma z_string_Some: "z_string v = Some s \<longleftrightarrow> v = JStr s"
  by (cases v) (auto simp: z_string_def)

lemma z_boolean_Some: "z_boolean v = Some b \<longleftrightarrow> v = JBool b"
  by (cases v) (auto simp: z_boolean_def)

lemma z_optional_Some:
  "z_optional s v = Some x \<longleftrightarrow>
     (v = JUndefined \<and> x = None) \<or> (v \<noteq> JUndefined \<and> (\<exists>y. s v = Some y \<and> x = Some y))"
  by (auto simp: z_optional_def)

lemma z_nullable_Some:
  "z_nullable s v = Some x \<longleftrightarrow>
     (v = JNull \<and> x = None) \<or> (v \<noteq> JNull \<and> (\<exists>y. s v = Some y \<and> x = Some y))"
  by (auto simp: z_nullable_def)

lemma z_optional_boolean_Some: "z_optional z_boolean v = Some x \<longleftrightarrow> v = js_of_flag x"
  by (cases x) (auto simp: z_optional_Some z_boolean_Some js_of_flag_def)

lemma own_property_Cons [simp]:
  "own_property ((k, v) # kvs) k' = (if k = k' then v else own_property kvs k')"
  by (simp add: own_property_def)

lemma own_property_Nil [simp]: "own_property [] k = JUndefined"
  by (simp add: own_property_def)

lemma is_integer_numeral [simp]: "is_integer (numeral n)"
  by (simp add: is_integer_def)

section \<open>The schemas accept exactly the valid typed values, and return them\<close>

lemma UserStatsSchema_Some:
  "UserStatsSchema v = Some s \<longleftrightarrow>
     (\<exists>kvs. v = JObj kvs \<and>
        own_property kvs ''totalSessions'' = JNum (totalSessions s) \<and>
        own_property kvs ''totalCalls'' = JNum (totalCalls s) \<and>
        own_property kvs ''successfulSequences'' = JNum (successfulSequences s) \<and>
        own_property kvs ''failedSequences'' = JNum (failedSequences s) \<and>
        valid_UserStats s)"
  by (cases v; cases s)
     (auto simp: UserStatsSchema_def z_checks refine_Some z_number_Some valid_count_def
        valid_UserStats_def Option.bind_eq_Some_conv)

lemma UserStatsSchema_js_of:
  "UserStatsSchema (js_of_UserStats s) = Some s' \<longleftrightarrow> s' = s \<and> valid_UserStats s"
  by (cases s; cases s') (auto simp: UserStatsSchema_Some js_of_UserStats_def)

lemma UserPreferencesSchema_Some:
  "UserPreferencesSchema v = Some p \<longleftrightarrow>
     (\<exists>kvs. v = JObj kvs \<and>
        own_property kvs ''autoPlayAnimations'' = js_of_flag (autoPlayAnimations p) \<and>
        own_property kvs ''showFlowHints'' = js_of_flag (showFlowHints p))"
  by (cases v; cases p)
     (auto simp: UserPreferencesSchema_def z_optional_boolean_Some Option.bind_eq_Some_conv)

lemma UserPreferencesSchema_js_of:
  "UserPreferencesSchema (js_of_UserPreferences p) = Some p' \<longleftrightarrow> p' = p"
  by (cases p; cases p')
     (auto simp: UserPreferencesSchema_Some js_of_UserPreferences_def optional_field_def
        js_of_flag_def split: option.splits)

lemma js_of_UserPreferences_defined [simp]: "js_of_UserPreferences p \<noteq> JUndefined"
  by (simp add: js_of_UserPreferences_def)

lemma UserProfileSchema_Some:
  "UserProfileSchema v = Some u \<longleftrightarrow>
     (\<exists>kvs. v = JObj kvs \<and>
        own_property kvs ''id'' = JStr (profile_id u) \<and>
        own_property kvs ''name'' = JStr (name u) \<and>
        own_property kvs ''createdAt'' = JNum (createdAt u) \<and>
        UserStatsSchema (own_property kvs ''stats'') = Some (stats u) \<and>
        z_optional UserPreferencesSchema (own_property kvs ''preferences'') =
          Some (preferences u) \<and>
        is_uuid (profile_id u) \<and> 1 \<le> length (name u) \<and> length (name u) \<le> 20 \<and>
        is_integer (createdAt u) \<and> 0 < createdAt u)"
  by (cases v; cases u)
     (auto simp: UserProfileSchema_def z_checks refine_Some z_number_Some z_string_Some
        Option.bind_eq_Some_conv)

lemma UserProfileSchema_js_of:
  "UserProfileSchema (js_of_UserProfile u) = Some u' \<longleftrightarrow> u' = u \<and> valid_UserProfile u"
  by (cases u; cases u')
     (auto simp: UserProfileSchema_Some js_of_UserProfile_def optional_field_def
        UserStatsSchema_js_of z_optional_Some UserPreferencesSchema_js_of
        valid_UserProfile_def split: option.splits)

lemma UserProfileSchema_accepts:
  "valid_UserProfile u \<Longrightarrow> UserProfileSchema (js_of_UserProfile u) = Some u"
  by (simp add: UserProfileSchema_js_of)

lemma UserProfileSchema_valid: "UserProfileSchema v = Some u \<Longrightarrow> valid_UserProfile u"
  by (auto simp: UserProfileSchema_Some UserStatsSchema_Some valid_UserProfile_def)

lemma BackupDataSchema_Some:
  "BackupDataSchema v = Some b \<longleftrightarrow>
     (\<exists>kvs. v = JObj kvs \<and>
        own_property kvs ''version'' = JStr (version b) \<and>
        own_property kvs ''timestamp'' = JNum (timestamp b) \<and>
        z_nullable UserProfileSchema (own_property kvs ''user'') = Some (user b))"
  by (cases v; cases b)
     (auto simp: BackupDataSchema_def z_number_Some z_string_Some Option.bind_eq_Some_conv)

lemma validateBackup_Some:
  "validateBackup data = Some b \<longleftrightarrow> BackupDataSchema data = Some b"
  by (simp add: validateBackup_def z_parse_def split: option.splits)

lemma validateBackup_None:
  "validateBackup data = None \<longleftrightarrow> BackupDataSchema data = None"
  by (simp add: validateBackup_def z_parse_def split: option.splits)

lemma validateBackup_user_valid:
  assumes "validateBackup data = Some b" and "user b = Some u"
  shows "valid_UserProfile u"
  using assms
  by (auto simp: validateBackup_Some BackupDataSchema_Some z_nullable_Some
      dest: UserProfileSchema_valid)

section \<open>Serialising a profile\<close>

lemma has_bigint_js_of_UserProfile [simp]: "\<not> has_bigint (js_of_UserProfile u)"
  by (auto simp: js_of_UserProfile_def js_of_UserStats_def js_of_UserPreferences_def
      optional_field_def split: option.splits)

lemma to_json_js_of_UserProfile [simp]: "to_json (js_of_UserProfile u) = js_of_UserProfile u"
  by (auto simp: js_of_UserProfile_def js_of_UserStats_def js_of_UserPreferences_def
      optional_field_def split: option.splits)

lemma JSON_stringify_js_of_UserProfile:
  "JSON_stringify (js_of_UserProfile u) = Inr (Some (JsonText (js_of_UserProfile u)))"
  by (simp add: JSON_stringify_def) (simp add: js_of_UserProfile_def)

lemma get_member_js_of_UserProfile:
  "get_member (js_of_UserProfile u) ''name'' = Inr (JStr (name u))"
  by (simp add: get_member_def js_of_UserProfile_def)

section \<open>What importBackup does with a validated envelope\<close>

lemma importBackup_user:
  assumes "validateBackup data = Some b" and "user b = Some u"
  shows "importBackup data st =
     (case st of
        Disabled \<Rightarrow> (Inr False, Disabled)
      | Enabled m fits \<Rightarrow>
          if fits (m(''squaredance-user-profile'' \<mapsto> JsonText (js_of_UserProfile u)))
          then (Inr True,
                Enabled (m(''squaredance-user-profile'' \<mapsto> JsonText (js_of_UserProfile u))) fits)
          else (Inr False, Enabled m fits))"
proof -
  have "valid_UserProfile u"
    using assms by (rule validateBackup_user_valid)
  then have re: "z_parse UserProfileSchema (js_of_UserProfile u) = Inr u"
    by (simp add: z_parse_def UserProfileSchema_accepts)
  show ?thesis
    by (cases st)
       (simp_all add: importBackup_def assms re io_defs JSON_stringify_js_of_UserProfile
          string_of_undefined_or_def string_of_null_or_def JSON_parse_def
          get_member_js_of_UserProfile)
qed

lemma importBackup_null:
  assumes "validateBackup data = Some b" and "user b = None"
  shows "importBackup data st =
     (case st of
        Disabled \<Rightarrow> (Inr False, Disabled)
      | Enabled m fits \<Rightarrow> (Inr True, Enabled (m(''squaredance-user-profile'' := None)) fits))"
  by (cases st) (simp_all add: importBackup_def assms io_defs)

section \<open>The fixtures are valid\<close>

lemma mock_uuid: "is_uuid ''123e4567-e89b-12d3-a456-426614174000''"
  by code_simp

lemma valid_mock: "valid_UserProfile (mockUser 1700000000000)"
  by (simp add: valid_UserProfile_def valid_UserStats_def valid_count_def mockUser_def mock_uuid)

lemma validate_mock:
  "validateBackup (backup_of (js_of_UserProfile (mockUser 1700000000000))) =
     Some \<lparr>version = ''1.0.0'', timestamp = 1700000000001,
           user = Some (mockUser 1700000000000)\<rparr>"
  using valid_mock
  by (simp add: validateBackup_Some BackupDataSchema_Some backup_of_def z_nullable_Some
      UserProfileSchema_js_of) (simp add: js_of_UserProfile_def)

lemma validate_null:
  "validateBackup (backup_of JNull) =
     Some \<lparr>version = ''1.0.0'', timestamp = 1700000000001, user = None\<rparr>"
  by (simp add: validateBackup_Some BackupDataSchema_Some backup_of_def z_nullable_Some)

section \<open>Removing a list of keys\<close>

lemma forEach_removeItem_Disabled:
  "forEach (\<lambda>key. removeItem key) ks Disabled =
     (if ks = [] then Inr () else Inl SecurityError, Disabled)"
  by (cases ks) (simp_all add: io_defs)

lemma forEach_removeItem_Enabled:
  "forEach (\<lambda>key. removeItem key) ks (Enabled m fits) =
     (Inr (), Enabled (\<lambda>k. if k \<in> set ks then None else m k) fits)"
proof (induction ks arbitrary: m)
  case Nil
  then show ?case by (simp add: io_defs)
next
  case (Cons k ks)
  have "(\<lambda>k'. if k' \<in> set ks then None else (m(k := None)) k') =
        (\<lambda>k'. if k' \<in> set (k # ks) then None else m k')"
    by auto
  with Cons show ?case by (simp add: io_defs)
qed

lemma clearAllLocalStorage_eq:
  "clearAllLocalStorage st =
     (Inr (),
      case st of
        Disabled \<Rightarrow> Disabled
      | Enabled m fits \<Rightarrow> Enabled (\<lambda>k. if k \<in> set STORAGE_KEYS then None else m k) fits)"
  by (cases st)
     (simp_all add: clearAllLocalStorage_def try_catch_def forEach_removeItem_Disabled
        forEach_removeItem_Enabled io_return_def del: forEach.simps)

section \<open>The name check of the components, on the names of the specification\<close>

lemma validateName_examples:
  "validateName ''Bob Smith-99_'' = None"
  "validateName ''Bob!'' =
     Some ''Only letters, numbers, spaces, dash (-), and underscore (_) allowed''"
  "validateName (replicate 21 CHR ''a'') = Some ''Name must be 20 characters or less''"
  "validateName '' Bob'' = Some ''Name cannot start or end with spaces''"
  by code_simp+

section \<open>Two tests of utils/backup.test.ts, replayed on the model\<close>

lemma test_validateBackup_invalid_user:
  "validateBackup
     (backup_of (JObj [(''id'', JStr ''not-a-uuid''), (''name'', JStr ''Test'')])) = None"
  by (simp add: validateBackup_None BackupDataSchema_def backup_of_def z_string_def
      z_number_def z_nullable_def UserProfileSchema_def z_checks refine_def is_uuid_def)

lemma test_exportBackup_user_present:
  "exportBackup 1700000000001
     (Enabled (no_items(''squaredance-user-profile'' \<mapsto>
                 JsonText (js_of_UserProfile (mockUser 1700000000000)))) unlimited) =
   (Inr \<lparr>version = ''1.0.0'', timestamp = 1700000000001,
         user = js_of_UserProfile (mockUser 1700000000000)\<rparr>,
    Enabled (no_items(''squaredance-user-profile'' \<mapsto>
               JsonText (js_of_UserProfile (mockUser 1700000000000)))) unlimited)"
  by (simp add: exportBackup_def io_defs JSON_parse_def)

section \<open>The claims\<close>

text \<open>
  C1. Whenever \<^verbatim>\<open>validateBackup\<close> rejects the input, \<^verbatim>\<open>importBackup\<close> returns false and
  the store it leaves behind is the store it was given, whatever that store is. The
  instance after it is the input \<^verbatim>\<open>{ "version": "1.0.0" }\<close> on a store that holds a
  profile.
\<close>

theorem importBackup_rejects_without_effect:
  "validateBackup data = None \<Longrightarrow> importBackup data st = (Inr False, st)"
  by (simp add: importBackup_def io_return_def)

theorem importBackup_rejects_without_effect_witness:
  "validateBackup (JObj [(''version'', JStr ''1.0.0'')]) = None \<and>
   importBackup (JObj [(''version'', JStr ''1.0.0'')])
     (Enabled (no_items(''squaredance-user-profile'' \<mapsto> JsonText (JStr ''kept'')))
        unlimited) =
   (Inr False,
    Enabled (no_items(''squaredance-user-profile'' \<mapsto> JsonText (JStr ''kept''))) unlimited)"
proof -
  have h: "validateBackup (JObj [(''version'', JStr ''1.0.0'')]) = None"
    by (simp add: validateBackup_None BackupDataSchema_def z_number_def)
  show ?thesis
    using h importBackup_rejects_without_effect [OF h] by simp
qed

text \<open>
  C2, as amended. For an envelope that passes validation and an enabled store: with a
  null user \<^verbatim>\<open>importBackup\<close> removes the profile key and returns true; with a user, and
  when the store accepts the write, it returns true and the profile key holds the JSON
  text of that user alone, whatever was stored before. When the store refuses the write,
  or is disabled, the exception is caught, \<^verbatim>\<open>importBackup\<close> returns false and the store
  is unchanged.
\<close>

theorem importBackup_replaces_profile:
  assumes "validateBackup data = Some b"
  shows
    "(user b = None \<longrightarrow>
        importBackup data (Enabled m fits) =
          (Inr True, Enabled (m(''squaredance-user-profile'' := None)) fits)) \<and>
     (\<forall>u. user b = Some u \<and>
          fits (m(''squaredance-user-profile'' \<mapsto> JsonText (js_of_UserProfile u))) \<longrightarrow>
        importBackup data (Enabled m fits) =
          (Inr True,
           Enabled (m(''squaredance-user-profile'' \<mapsto> JsonText (js_of_UserProfile u))) fits)) \<and>
     (\<forall>u. user b = Some u \<and>
          \<not> fits (m(''squaredance-user-profile'' \<mapsto> JsonText (js_of_UserProfile u))) \<longrightarrow>
        importBackup data (Enabled m fits) = (Inr False, Enabled m fits)) \<and>
     importBackup data Disabled = (Inr False, Disabled)"
proof (cases "user b")
  case None
  with assms show ?thesis
    by (simp add: importBackup_null)
next
  case (Some u)
  with assms show ?thesis
    by (simp add: importBackup_user)
qed

theorem importBackup_replaces_profile_witness:
  "validateBackup (backup_of JNull) =
     Some \<lparr>version = ''1.0.0'', timestamp = 1700000000001, user = None\<rparr> \<and>
   importBackup (backup_of JNull)
     (Enabled (no_items(''squaredance-user-profile'' \<mapsto> JsonText (JStr ''old'')))
        unlimited) =
     (Inr True,
      Enabled ((no_items(''squaredance-user-profile'' \<mapsto> JsonText (JStr ''old'')))
                 (''squaredance-user-profile'' := None)) unlimited) \<and>
   validateBackup (backup_of (js_of_UserProfile (mockUser 1700000000000))) =
     Some \<lparr>version = ''1.0.0'', timestamp = 1700000000001,
           user = Some (mockUser 1700000000000)\<rparr> \<and>
   importBackup (backup_of (js_of_UserProfile (mockUser 1700000000000)))
     (Enabled (no_items(''squaredance-user-profile'' \<mapsto> JsonText (JStr ''old'')))
        unlimited) =
     (Inr True,
      Enabled ((no_items(''squaredance-user-profile'' \<mapsto> JsonText (JStr ''old'')))
                 (''squaredance-user-profile'' \<mapsto>
                    JsonText (js_of_UserProfile (mockUser 1700000000000)))) unlimited) \<and>
   importBackup (backup_of (js_of_UserProfile (mockUser 1700000000000)))
     (Enabled (no_items(''squaredance-user-profile'' \<mapsto> JsonText (JStr ''old'')))
        exhausted) =
     (Inr False,
      Enabled (no_items(''squaredance-user-profile'' \<mapsto> JsonText (JStr ''old'')))
        exhausted)"
  using importBackup_replaces_profile [OF validate_null,
          of "no_items(''squaredance-user-profile'' \<mapsto> JsonText (JStr ''old''))" unlimited]
        importBackup_replaces_profile [OF validate_mock,
          of "no_items(''squaredance-user-profile'' \<mapsto> JsonText (JStr ''old''))" unlimited]
        importBackup_replaces_profile [OF validate_mock,
          of "no_items(''squaredance-user-profile'' \<mapsto> JsonText (JStr ''old''))" exhausted]
        validate_null validate_mock
  by simp

text \<open>
  C2 as stated fails where the store raises: the envelope of the tests with the valid
  profile, imported into a store that accepts no write, and the envelope with a null
  user, imported while the store is disabled, both pass validation and both make
  \<^verbatim>\<open>importBackup\<close> return false.
\<close>

theorem importBackup_store_failure_counterexample:
  "validateBackup (backup_of (js_of_UserProfile (mockUser 1700000000000))) \<noteq> None \<and>
   importBackup (backup_of (js_of_UserProfile (mockUser 1700000000000)))
     (Enabled no_items exhausted) = (Inr False, Enabled no_items exhausted) \<and>
   validateBackup (backup_of JNull) \<noteq> None \<and>
   importBackup (backup_of JNull) Disabled = (Inr False, Disabled)"
  by (simp add: validate_mock validate_null importBackup_user [OF validate_mock]
      importBackup_null [OF validate_null])

text \<open>
  C3, as amended. \<^verbatim>\<open>UserProfileSchema\<close> bounds only the length of the name: on an
  otherwise valid profile it accepts a name exactly when it has 1 to 20 characters, and
  returns the profile with that name. The character set and the leading and trailing
  white space are both checked by \<^verbatim>\<open>validateName\<close> of the components, which accepts
  \<^verbatim>\<open>"Bob Smith-99_"\<close>, rejects \<^verbatim>\<open>"Bob!"\<close> with the character-set message, 21 letters
  \<^verbatim>\<open>a\<close> with the length message and \<^verbatim>\<open>" Bob"\<close> with the white-space message.
\<close>

theorem name_checked_by_schema_and_by_caller:
  "(valid_UserProfile u \<longrightarrow>
      UserProfileSchema (js_of_UserProfile (u\<lparr>name := n\<rparr>)) =
        (if 1 \<le> length n \<and> length n \<le> 20 then Some (u\<lparr>name := n\<rparr>) else None)) \<and>
   validateName ''Bob Smith-99_'' = None \<and>
   validateName ''Bob!'' =
     Some ''Only letters, numbers, spaces, dash (-), and underscore (_) allowed'' \<and>
   validateName (replicate 21 CHR ''a'') = Some ''Name must be 20 characters or less'' \<and>
   validateName '' Bob'' = Some ''Name cannot start or end with spaces''"
proof -
  have "UserProfileSchema (js_of_UserProfile (u\<lparr>name := n\<rparr>)) =
        (if 1 \<le> length n \<and> length n \<le> 20 then Some (u\<lparr>name := n\<rparr>) else None)"
    if "valid_UserProfile u"
  proof (cases "UserProfileSchema (js_of_UserProfile (u\<lparr>name := n\<rparr>))")
    case None
    with that show ?thesis
      using UserProfileSchema_js_of [of "u\<lparr>name := n\<rparr>" "u\<lparr>name := n\<rparr>"]
      by (auto simp: valid_UserProfile_def)
  next
    case (Some u')
    with that show ?thesis
      by (auto simp: UserProfileSchema_js_of valid_UserProfile_def)
  qed
  then show ?thesis
    by (simp only: validateName_examples) simp
qed

theorem name_checked_by_schema_and_by_caller_witness:
  "valid_UserProfile (mockUser 1700000000000) \<and>
   UserProfileSchema (js_of_UserProfile (mockUser 1700000000000\<lparr>name := ''Bob Smith-99_''\<rparr>)) =
     Some (mockUser 1700000000000\<lparr>name := ''Bob Smith-99_''\<rparr>) \<and>
   UserProfileSchema
     (js_of_UserProfile (mockUser 1700000000000\<lparr>name := replicate 21 CHR ''a''\<rparr>)) = None \<and>
   UserProfileSchema
     (js_of_UserProfile (mockUser 1700000000000\<lparr>name := replicate 20 CHR ''a''\<rparr>)) =
     Some (mockUser 1700000000000\<lparr>name := replicate 20 CHR ''a''\<rparr>)"
  using name_checked_by_schema_and_by_caller [of "mockUser 1700000000000" "''Bob Smith-99_''"]
        name_checked_by_schema_and_by_caller
          [of "mockUser 1700000000000" "replicate 21 CHR ''a''"]
        name_checked_by_schema_and_by_caller
          [of "mockUser 1700000000000" "replicate 20 CHR ''a''"]
        valid_mock
  by simp

text \<open>
  C3 as stated fails: the schema has no character-set check, and accepts the profile of
  the tests with the name \<^verbatim>\<open>"Bob!"\<close>.
\<close>

theorem schema_accepts_other_characters_counterexample:
  "UserProfileSchema (js_of_UserProfile (mockUser 1700000000000\<lparr>name := ''Bob!''\<rparr>)) =
     Some (mockUser 1700000000000\<lparr>name := ''Bob!''\<rparr>)"
  using valid_mock by (simp add: UserProfileSchema_js_of valid_UserProfile_def)

text \<open>
  C4. For every profile \<open>P\<close> that satisfies the checks of the schema, serialising \<open>P\<close>
  with \<^verbatim>\<open>JSON.stringify\<close>, parsing the text and validating the result against
  \<^verbatim>\<open>UserProfileSchema\<close> succeeds with \<open>P\<close>; and the same through the store: after
  \<^verbatim>\<open>saveToLocalStorage\<close> of \<open>P\<close> on a store that accepts the write,
  \<^verbatim>\<open>loadFromLocalStorage\<close> with the schema returns \<open>P\<close>. An optional field that is absent
  and one that is \<^verbatim>\<open>undefined\<close> are the same typed value.
\<close>

theorem UserProfile_round_trip:
  assumes "valid_UserProfile P"
  shows "(case JSON_stringify (js_of_UserProfile P) of
            Inl e \<Rightarrow> None
          | Inr None \<Rightarrow> None
          | Inr (Some json) \<Rightarrow>
              (case JSON_parse json of Inl e \<Rightarrow> None | Inr data \<Rightarrow> UserProfileSchema data)) =
         Some P \<and>
         (fits (m(key \<mapsto> JsonText (js_of_UserProfile P))) \<longrightarrow>
            loadFromLocalStorage key UserProfileSchema
              (snd (saveToLocalStorage key (js_of_UserProfile P) (Enabled m fits))) =
            (Inr (Some P), Enabled (m(key \<mapsto> JsonText (js_of_UserProfile P))) fits))"
  using assms
  by (simp add: JSON_stringify_js_of_UserProfile JSON_parse_def UserProfileSchema_accepts
      saveToLocalStorage_def loadFromLocalStorage_def io_defs string_of_undefined_or_def)

theorem UserProfile_round_trip_witness:
  "valid_UserProfile (mockUser 1700000000000) \<and>
   (case JSON_stringify (js_of_UserProfile (mockUser 1700000000000)) of
      Inl e \<Rightarrow> None
    | Inr None \<Rightarrow> None
    | Inr (Some json) \<Rightarrow>
        (case JSON_parse json of Inl e \<Rightarrow> None | Inr data \<Rightarrow> UserProfileSchema data)) =
     Some (mockUser 1700000000000) \<and>
   loadFromLocalStorage ''squaredance-user-profile'' UserProfileSchema
     (snd (saveToLocalStorage ''squaredance-user-profile''
             (js_of_UserProfile (mockUser 1700000000000)) (Enabled no_items unlimited))) =
     (Inr (Some (mockUser 1700000000000)),
      Enabled (no_items(''squaredance-user-profile'' \<mapsto>
                 JsonText (js_of_UserProfile (mockUser 1700000000000)))) unlimited)"
  using UserProfile_round_trip
          [OF valid_mock, of unlimited no_items "''squaredance-user-profile''"]
    valid_mock
  by simp

text \<open>
  C5, as amended. On an enabled store whose profile key is absent or holds the empty
  string, \<^verbatim>\<open>exportBackup\<close> returns the envelope with version \<^verbatim>\<open>"1.0.0"\<close>, the call time
  and a null user; when the key holds a JSON text it returns the envelope with the parsed
  value as the user, whether or not that value conforms to the profile schema. The store
  is left as it was.
\<close>

theorem exportBackup_wraps_raw_profile:
  "(m ''squaredance-user-profile'' = None \<or>
    m ''squaredance-user-profile'' = Some EmptyString \<longrightarrow>
      exportBackup now (Enabled m fits) =
        (Inr \<lparr>version = ''1.0.0'', timestamp = of_int now, user = JNull\<rparr>, Enabled m fits)) \<and>
   (m ''squaredance-user-profile'' = Some (JsonText v) \<longrightarrow>
      exportBackup now (Enabled m fits) =
        (Inr \<lparr>version = ''1.0.0'', timestamp = of_int now, user = v\<rparr>, Enabled m fits))"
  by (auto simp: exportBackup_def io_defs JSON_parse_def)

theorem exportBackup_wraps_raw_profile_witness:
  "exportBackup 1700000000000 (Enabled no_items unlimited) =
     (Inr \<lparr>version = ''1.0.0'', timestamp = 1700000000000, user = JNull\<rparr>,
      Enabled no_items unlimited) \<and>
   exportBackup 1700000000000
     (Enabled (no_items(''squaredance-user-profile'' \<mapsto> JsonText (JObj [(''name'', JNum 7)])))
        unlimited) =
     (Inr \<lparr>version = ''1.0.0'', timestamp = 1700000000000, user = JObj [(''name'', JNum 7)]\<rparr>,
      Enabled (no_items(''squaredance-user-profile'' \<mapsto> JsonText (JObj [(''name'', JNum 7)])))
        unlimited)"
  using exportBackup_wraps_raw_profile [of no_items 1700000000000 unlimited]
    exportBackup_wraps_raw_profile
      [of "no_items(''squaredance-user-profile'' \<mapsto> JsonText (JObj [(''name'', JNum 7)]))"
          1700000000000 unlimited "JObj [(''name'', JNum 7)]"]
  by simp

text \<open>
  C5 as stated fails: \<^verbatim>\<open>exportBackup\<close> calls \<^verbatim>\<open>JSON.parse\<close> outside any
  \<^verbatim>\<open>try\<close>, so on a store whose profile key holds a string that is not JSON the
  SyntaxError reaches the caller.
\<close>

theorem exportBackup_throws_counterexample:
  "exportBackup 1700000000000
     (Enabled (no_items(''squaredance-user-profile'' \<mapsto> NotJson)) unlimited) =
   (Inl SyntaxError,
    Enabled (no_items(''squaredance-user-profile'' \<mapsto> NotJson)) unlimited)"
  by (simp add: exportBackup_def io_defs JSON_parse_def)

text \<open>
  C6. For every key, schema and store, \<^verbatim>\<open>loadFromLocalStorage\<close> returns without an
  exception and leaves the store as it was. It returns null when the key is not set, when
  the stored string does not parse, and when the parsed value fails the schema; it
  returns a value exactly when the key holds a string that parses to a value the schema
  accepts, and then it is the schema's result.
\<close>

theorem loadFromLocalStorage_absent_or_valid:
  "(\<exists>r. loadFromLocalStorage key schema st = (Inr r, st)) \<and>
   (contents st key = None \<longrightarrow> loadFromLocalStorage key schema st = (Inr None, st)) \<and>
   (\<forall>t e. contents st key = Some t \<and> JSON_parse t = Inl e \<longrightarrow>
      loadFromLocalStorage key schema st = (Inr None, st)) \<and>
   (\<forall>t v. contents st key = Some t \<and> JSON_parse t = Inr v \<and> schema v = None \<longrightarrow>
      loadFromLocalStorage key schema st = (Inr None, st)) \<and>
   (\<forall>x. loadFromLocalStorage key schema st = (Inr (Some x), st) \<longleftrightarrow>
      (\<exists>t v. contents st key = Some t \<and> JSON_parse t = Inr v \<and> schema v = Some x))"
proof (cases st)
  case Disabled
  then show ?thesis
    by (simp add: loadFromLocalStorage_def io_defs)
next
  case (Enabled m fits)
  show ?thesis
  proof (cases "m key")
    case None
    with Enabled show ?thesis
      by (simp add: loadFromLocalStorage_def io_defs)
  next
    case (Some t)
    with Enabled show ?thesis
      by (cases t; cases "schema (case t of JsonText v \<Rightarrow> v | _ \<Rightarrow> JNull)")
         (simp_all add: loadFromLocalStorage_def io_defs JSON_parse_def)
  qed
qed

theorem loadFromLocalStorage_absent_or_valid_witness:
  "loadFromLocalStorage ''squaredance-user-profile'' UserProfileSchema
     (Enabled no_items unlimited) =
     (Inr None, Enabled no_items unlimited) \<and>
   loadFromLocalStorage ''squaredance-user-profile'' UserProfileSchema
     (Enabled (no_items(''squaredance-user-profile'' \<mapsto> NotJson)) unlimited) =
     (Inr None, Enabled (no_items(''squaredance-user-profile'' \<mapsto> NotJson)) unlimited) \<and>
   loadFromLocalStorage ''squaredance-user-profile'' UserProfileSchema
     (Enabled (no_items(''squaredance-user-profile'' \<mapsto> JsonText (JObj []))) unlimited) =
     (Inr None,
      Enabled (no_items(''squaredance-user-profile'' \<mapsto> JsonText (JObj []))) unlimited) \<and>
   loadFromLocalStorage ''squaredance-user-profile'' UserProfileSchema
     (Enabled (no_items(''squaredance-user-profile'' \<mapsto>
                 JsonText (js_of_UserProfile (mockUser 1700000000000)))) unlimited) =
     (Inr (Some (mockUser 1700000000000)),
      Enabled (no_items(''squaredance-user-profile'' \<mapsto>
                 JsonText (js_of_UserProfile (mockUser 1700000000000)))) unlimited)"
proof -
  have none: "UserProfileSchema (JObj []) = None"
    by (simp add: UserProfileSchema_def z_checks refine_def z_string_def)
  have some: "UserProfileSchema (js_of_UserProfile (mockUser 1700000000000)) =
      Some (mockUser 1700000000000)"
    using valid_mock by (simp add: UserProfileSchema_js_of)
  show ?thesis
    using
      loadFromLocalStorage_absent_or_valid
        [of "''squaredance-user-profile''" UserProfileSchema "Enabled no_items unlimited"]
      loadFromLocalStorage_absent_or_valid
        [of "''squaredance-user-profile''" UserProfileSchema
            "Enabled (no_items(''squaredance-user-profile'' \<mapsto> NotJson)) unlimited"]
      loadFromLocalStorage_absent_or_valid
        [of "''squaredance-user-profile''" UserProfileSchema
            "Enabled (no_items(''squaredance-user-profile'' \<mapsto> JsonText (JObj [])))
               unlimited"]
      loadFromLocalStorage_absent_or_valid
        [of "''squaredance-user-profile''" UserProfileSchema
            "Enabled (no_items(''squaredance-user-profile'' \<mapsto>
                 JsonText (js_of_UserProfile (mockUser 1700000000000)))) unlimited"]
      none some
    by (simp add: JSON_parse_def)
qed

text \<open>
  C7. For every key, value and store, \<^verbatim>\<open>saveToLocalStorage\<close> returns normally with the
  one value of type void: a failure of \<^verbatim>\<open>JSON.stringify\<close>, a disabled store and a
  refused write are all caught, and then the store is unchanged. The returned value is
  the same whether the write took place or not.
\<close>

theorem saveToLocalStorage_never_throws:
  "fst (saveToLocalStorage key data st) = Inr () \<and>
   snd (saveToLocalStorage key data st) =
     (case st of
        Disabled \<Rightarrow> Disabled
      | Enabled m fits \<Rightarrow>
          (case JSON_stringify data of
             Inl e \<Rightarrow> Enabled m fits
           | Inr json \<Rightarrow>
               if fits (m(key \<mapsto> string_of_undefined_or json))
               then Enabled (m(key \<mapsto> string_of_undefined_or json)) fits
               else Enabled m fits))"
  by (cases st; cases "JSON_stringify data")
     (simp_all add: saveToLocalStorage_def io_defs)

theorem saveToLocalStorage_never_throws_witness:
  "saveToLocalStorage ''test-key'' (JObj [(''value'', JBigInt 42)])
     (Enabled no_items unlimited) = (Inr (), Enabled no_items unlimited) \<and>
   saveToLocalStorage ''test-key'' (JObj [(''value'', JNum 42)]) Disabled =
     (Inr (), Disabled) \<and>
   saveToLocalStorage ''test-key'' (JObj [(''value'', JNum 42)])
     (Enabled no_items exhausted) = (Inr (), Enabled no_items exhausted) \<and>
   saveToLocalStorage ''test-key'' (JObj [(''value'', JNum 42)])
     (Enabled no_items unlimited) =
     (Inr (), Enabled (no_items(''test-key'' \<mapsto> JsonText (JObj [(''value'', JNum 42)])))
                unlimited)"
  using saveToLocalStorage_never_throws
          [of "''test-key''" "JObj [(''value'', JBigInt 42)]" "Enabled no_items unlimited"]
        saveToLocalStorage_never_throws
          [of "''test-key''" "JObj [(''value'', JNum 42)]" Disabled]
        saveToLocalStorage_never_throws
          [of "''test-key''" "JObj [(''value'', JNum 42)]" "Enabled no_items exhausted"]
        saveToLocalStorage_never_throws
          [of "''test-key''" "JObj [(''value'', JNum 42)]" "Enabled no_items unlimited"]
  by (simp add: prod_eq_iff JSON_stringify_def string_of_undefined_or_def)

text \<open>
  C8. For every store, \<^verbatim>\<open>clearAllLocalStorage\<close> returns normally, and afterwards the
  store holds nothing under the keys of \<^verbatim>\<open>STORAGE_KEYS\<close> and, under every other key,
  what it held before. \<^verbatim>\<open>STORAGE_KEYS\<close> is the profile key alone.
\<close>

theorem clearAllLocalStorage_frame:
  "fst (clearAllLocalStorage st) = Inr () \<and>
   contents (snd (clearAllLocalStorage st)) =
     (\<lambda>k. if k \<in> set STORAGE_KEYS then None else contents st k) \<and>
   STORAGE_KEYS = [''squaredance-user-profile'']"
  by (cases st) (auto simp: clearAllLocalStorage_eq STORAGE_KEYS_def)

theorem clearAllLocalStorage_frame_witness:
  "contents
     (snd (clearAllLocalStorage
        (Enabled (no_items(''squaredance-user-profile'' \<mapsto> NotJson,
                            ''other-app-key'' \<mapsto> NotJson)) unlimited)))
     ''squaredance-user-profile'' = None \<and>
   contents
     (snd (clearAllLocalStorage
        (Enabled (no_items(''squaredance-user-profile'' \<mapsto> NotJson,
                            ''other-app-key'' \<mapsto> NotJson)) unlimited)))
     ''other-app-key'' = Some NotJson"
  using clearAllLocalStorage_frame
          [of "Enabled (no_items(''squaredance-user-profile'' \<mapsto> NotJson,
                                  ''other-app-key'' \<mapsto> NotJson)) unlimited"]
  by (simp add: STORAGE_KEYS_def)

text \<open>
  C9. When \<^verbatim>\<open>validateBackup\<close> accepts an input and the envelope has a user, parsing
  that user again with \<^verbatim>\<open>UserProfileSchema\<close> inside \<^verbatim>\<open>importBackup\<close> succeeds and
  returns the same user. So \<^verbatim>\<open>importBackup\<close> returns false on such an input only
  because of the store: it is disabled, or it refuses the write.
\<close>

theorem revalidation_never_fails:
  assumes "validateBackup data = Some b" and "user b = Some u"
  shows "z_parse UserProfileSchema (js_of_UserProfile u) = Inr u \<and>
         (fst (importBackup data st) = Inr False \<longrightarrow>
            st = Disabled \<or>
            (\<exists>m fits. st = Enabled m fits \<and>
               \<not> fits (m(''squaredance-user-profile'' \<mapsto> JsonText (js_of_UserProfile u)))))"
proof -
  have "valid_UserProfile u"
    using assms by (rule validateBackup_user_valid)
  then have "z_parse UserProfileSchema (js_of_UserProfile u) = Inr u"
    by (simp add: z_parse_def UserProfileSchema_accepts)
  moreover have "fst (importBackup data st) = Inr False \<longrightarrow>
            st = Disabled \<or>
            (\<exists>m fits. st = Enabled m fits \<and>
               \<not> fits (m(''squaredance-user-profile'' \<mapsto> JsonText (js_of_UserProfile u))))"
    by (cases st) (auto simp: importBackup_user [OF assms] split: if_splits)
  ultimately show ?thesis by simp
qed

theorem revalidation_never_fails_witness:
  "validateBackup (backup_of (js_of_UserProfile (mockUser 1700000000000))) =
     Some \<lparr>version = ''1.0.0'', timestamp = 1700000000001,
           user = Some (mockUser 1700000000000)\<rparr> \<and>
   z_parse UserProfileSchema (js_of_UserProfile (mockUser 1700000000000)) =
     Inr (mockUser 1700000000000) \<and>
   fst (importBackup (backup_of (js_of_UserProfile (mockUser 1700000000000))) Disabled) =
     Inr False"
  using revalidation_never_fails [OF validate_mock, of "mockUser 1700000000000" Disabled]
    validate_mock importBackup_user [OF validate_mock, of "mockUser 1700000000000" Disabled]
  by simp

text \<open>
  C10. \<^verbatim>\<open>validateBackup\<close> accepts an envelope with any string as its version and any
  number as its timestamp, with a null user or with a valid profile as the user, and
  returns the envelope with that version and that timestamp. The instances after it have
  the version \<^verbatim>\<open>"not a version"\<close> with the timestamp \<open>- 3 / 2\<close>, negative and not an
  integer, and the empty version with the timestamp 0.
\<close>

theorem validateBackup_any_version_any_timestamp:
  "validateBackup (JObj [(''version'', JStr ver), (''timestamp'', JNum t), (''user'', JNull)]) =
     Some \<lparr>version = ver, timestamp = t, user = None\<rparr> \<and>
   (valid_UserProfile u \<longrightarrow>
      validateBackup (JObj [(''version'', JStr ver), (''timestamp'', JNum t),
                            (''user'', js_of_UserProfile u)]) =
        Some \<lparr>version = ver, timestamp = t, user = Some u\<rparr>)"
  by (auto simp: validateBackup_Some BackupDataSchema_Some z_nullable_Some
      UserProfileSchema_js_of) (simp add: js_of_UserProfile_def)

theorem validateBackup_any_version_any_timestamp_witness:
  "valid_UserProfile (mockUser 1700000000000) \<and>
   validateBackup (JObj [(''version'', JStr ''not a version''), (''timestamp'', JNum (- 3 / 2)),
                         (''user'', js_of_UserProfile (mockUser 1700000000000))]) =
     Some \<lparr>version = ''not a version'', timestamp = - 3 / 2,
           user = Some (mockUser 1700000000000)\<rparr> \<and>
   validateBackup (JObj [(''version'', JStr []), (''timestamp'', JNum 0), (''user'', JNull)]) =
     Some \<lparr>version = [], timestamp = 0, user = None\<rparr>"
  using validateBackup_any_version_any_timestamp
          [of "''not a version''" "- 3 / 2" "mockUser 1700000000000"]
        validateBackup_any_version_any_timestamp [of "[]" 0 "mockUser 1700000000000"]
        valid_mock
  by simp

end
